theory Spec2Isabelle
  imports Complex_Main
begin

section \<open>The Digilent WaveForms controller (waveforms.py)\<close>

text \<open>
  The controller wraps the vendor driver \<open>dwf\<close>. The driver is not part of the repository:
  its sub-interfaces are modelled by the settings the controller reads back
  (\<open>bufferSizeGet\<close>, \<open>frequencyGet\<close>), by a trace of the calls made on them, and by the
  answers the device gives (status readings, sample buffers), which are inputs of the model.
  Python floats are idealised as real numbers; readings of \<open>time.time()\<close> are explicit
  arguments of the operations that take them.
\<close>

subsection \<open>Driver sub-interfaces\<close>

datatype node = CARRIER | FM | AM

datatype func = DC | SINE | SQUARE | RAMP_UP

datatype ao_call =
    AoReset
  | AoNodeFunctionSet int node func
  | AoNodeOffsetSet int node real
  | AoConfigure int int

record AnalogOut =
  ao_calls :: "ao_call list"

definition ao_call :: "ao_call \<Rightarrow> AnalogOut \<Rightarrow> AnalogOut" where
  "ao_call c a = a\<lparr>ao_calls := ao_calls a @ [c]\<rparr>"

datatype ai_state = READY | CONFIG | PREFILL | ARMED | WAIT | RUNNING | DONE

datatype ai_call =
    AiReset
  | AiBufferSizeSet int
  | AiFrequencySet real
  | AiChannelRangeSet int real
  | AiConfigure int int
  | AiStatus bool
  | AiStatusData int int

text \<open>
  \<open>status_feed\<close> holds the answers the device will give to the coming calls of
  \<open>status(True)\<close>, in order; \<open>status_data ch len\<close> is what \<open>statusData(ch, len)\<close> returns.
  \<open>bufferSizeSet\<close> and \<open>frequencySet\<close> store the value that the getters return;
  \<open>reset\<close> is recorded in the trace only (the driver's defaults are not fixed here, and
  \<open>preset_basic_analog\<close> overwrites every setting that is read back later).
\<close>

record AnalogIn =
  bufferSize :: int
  frequency :: real
  ai_calls :: "ai_call list"
  status_feed :: "ai_state list"
  status_data :: "int \<Rightarrow> int \<Rightarrow> real list"

definition ai_call :: "ai_call \<Rightarrow> AnalogIn \<Rightarrow> AnalogIn" where
  "ai_call c a = a\<lparr>ai_calls := ai_calls a @ [c]\<rparr>"

definition bufferSizeSet :: "int \<Rightarrow> AnalogIn \<Rightarrow> AnalogIn" where
  "bufferSizeSet n a = (ai_call (AiBufferSizeSet n) a)\<lparr>bufferSize := n\<rparr>"

definition frequencySet :: "real \<Rightarrow> AnalogIn \<Rightarrow> AnalogIn" where
  "frequencySet f a = (ai_call (AiFrequencySet f) a)\<lparr>frequency := f\<rparr>"

subsection \<open>The controller object\<close>

record DfwController =
  ai :: AnalogIn
  ao :: AnalogOut
  basic_analog_return_std :: bool
  read_timeout :: real
  last_ao0 :: real
  last_ao1 :: real
  time_stabilized :: real

text \<open>
  \<open>preset_basic_analog(n, freq, range, return_std)\<close>; the parameter \<open>range\<close> is
  \<open>range_v\<close> here. The parameter \<open>return_std\<close> is not used in the body: the source has no assignment to \<open>_basic_analog_return_std\<close> there
  (nor to \<open>_read_timeout\<close>, whose assignment is commented out).
\<close>

definition preset_basic_analog :: "int \<Rightarrow> real \<Rightarrow> real \<Rightarrow> bool \<Rightarrow> DfwController \<Rightarrow> DfwController" where
  "preset_basic_analog n freq range_v return_std self =
     (let ao1 = ao_call AoReset (ao self);
          ai1 = ai_call AiReset (ai self);
          ao2 = ao_call (AoNodeFunctionSet (-1) CARRIER DC) ao1;
          ao3 = ao_call (AoConfigure (-1) 3) ao2;
          ai2 = bufferSizeSet n ai1;
          ai3 = frequencySet freq ai2;
          ai4 = ai_call (AiChannelRangeSet (-1) range_v) ai3;
          ai5 = ai_call (AiConfigure 1 0) ai4;
          ao4 = ao_call (AoConfigure (-1) 1) ao3
      in self\<lparr>ai := ai5, ao := ao4\<rparr>)"

text \<open>
  \<open>__init__\<close>: \<open>drv_ai\<close> is the analog-in sub-interface as the driver hands it out for the
  opened device, \<open>now\<close> the reading of \<open>time.time()\<close>; the constructor ends with
  \<open>preset_basic_analog()\<close> at its defaults (84, 10000, 50.0, False).
\<close>

definition DfwController_init :: "AnalogIn \<Rightarrow> real \<Rightarrow> DfwController" where
  "DfwController_init drv_ai now =
     preset_basic_analog 84 10000 50 False
       \<lparr>ai = drv_ai, ao = \<lparr>ao_calls = []\<rparr>, basic_analog_return_std = False,
        read_timeout = 1, last_ao0 = 0, last_ao1 = 0, time_stabilized = now\<rparr>"

definition stop_analog_out :: "int \<Rightarrow> DfwController \<Rightarrow> DfwController" where
  "stop_analog_out channel self = self\<lparr>ao := ao_call (AoConfigure channel 0) (ao self)\<rparr>"

text \<open>
  \<open>write_analog(volt, channel)\<close>. Each of the two \<open>if\<close> statements reads the clock once:
  \<open>now0\<close> is the reading of the first, \<open>now1\<close> of the second. Both conditions are
  \<open>channel == 0 or channel == -1\<close>, as in the source.
\<close>

definition write_analog :: "real \<Rightarrow> int \<Rightarrow> real \<Rightarrow> real \<Rightarrow> DfwController \<Rightarrow> DfwController" where
  "write_analog volt channel now0 now1 self =
     (let s1 = self\<lparr>ao := ao_call (AoConfigure channel 1)
                          (ao_call (AoNodeOffsetSet channel CARRIER volt) (ao self))\<rparr>;
          s2 = (if channel = 0 \<or> channel = -1
                then s1\<lparr>time_stabilized :=
                           max (time_stabilized s1) (now0 + 0.013 + 0.005 * \<bar>last_ao0 s1 - volt\<bar>),
                        last_ao0 := volt\<rparr>
                else s1)
      in (if channel = 0 \<or> channel = -1
          then s2\<lparr>time_stabilized :=
                     max (time_stabilized s2) (now1 + 0.013 + 0.005 * \<bar>last_ao1 s2 - volt\<bar>),
                  last_ao1 := volt\<rparr>
          else s2))"

text \<open>
  \<open>wait_for_stabilization()\<close>. \<open>now\<close> is the reading of \<open>time.time()\<close>. The result is the
  returned value together with the duration handed to \<open>time.sleep\<close>, if it was called.
\<close>

definition wait_for_stabilization :: "real \<Rightarrow> DfwController \<Rightarrow> real \<times> real option" where
  "wait_for_stabilization now self =
     (let wait = time_stabilized self - now
      in if wait > 0 then (wait, Some wait) else (0, None))"

text \<open>
  The clock when \<open>wait_for_stabilization\<close> returns: \<open>time.sleep(d)\<close> suspends the caller
  for \<open>d\<close> seconds plus an overhead of the scheduler, and the call itself takes \<open>overhead\<close>
  seconds more.
\<close>

definition clock_after :: "real \<Rightarrow> real option \<Rightarrow> real \<Rightarrow> real" where
  "clock_after now slept overhead =
     (case slept of None \<Rightarrow> now + overhead | Some d \<Rightarrow> now + d + overhead)"

subsection \<open>The module namespace, exceptions and the log\<close>

text \<open>
  \<open>read_analog\<close> and \<open>wait_for_ai_acquisition\<close> refer to the name \<open>daq\<close>, which is not
  \<open>self\<close> but a global of the module: it is bound only by the script part of the file
  (\<open>daq = DfwController(0, 0)\<close> under \<open>if __name__ == '__main__'\<close>). The world therefore
  holds the binding of \<open>daq\<close> (if any), the controller objects by identity, and the
  records sent to the module's logger.
\<close>

datatype exn =
    NameError string
  | ZeroDivisionError
  | AttributeError string
  | KeyError string
  | TypeError string
  | OtherError string

datatype level = DEBUG | INFO | WARNING | ERROR

datatype log_record = LogRecord level string "exn list"

text \<open>
  How a call ends: it returns a value, raises, or is still polling when the supplied
  device answers are used up (\<open>Pending\<close>: the model knows no more of this run).
\<close>

datatype 'a result = Returned 'a | Raised exn | Pending

record world =
  daq :: "nat option"
  heap :: "nat \<Rightarrow> DfwController"
  logger :: "log_record list"

definition update_ai :: "nat \<Rightarrow> (AnalogIn \<Rightarrow> AnalogIn) \<Rightarrow> world \<Rightarrow> world" where
  "update_ai obj f w = w\<lparr>heap := (heap w)(obj := (heap w obj)\<lparr>ai := f (ai (heap w obj))\<rparr>)\<rparr>"

definition log_error :: "string \<Rightarrow> world \<Rightarrow> world" where
  "log_error msg w = w\<lparr>logger := logger w @ [LogRecord ERROR msg []]\<rparr>"

subsection \<open>Waiting for the acquisition\<close>

text \<open>
  The loop \<open>while daq.ai.status(True) != daq.ai.STATE.DONE: if time.time() > start_timestamp
  + read_timeout: ... return True\<close>. \<open>feed\<close> are the coming status readings, \<open>ticks\<close> the
  coming clock readings (one is taken in every iteration whose status is not \<open>DONE\<close>).
  The result is how the loop ends and how many times \<open>status\<close> was called.
\<close>

datatype poll_end = Done | TimedOut | Exhausted

fun poll_loop :: "real \<Rightarrow> ai_state list \<Rightarrow> real list \<Rightarrow> poll_end \<times> nat" where
  "poll_loop deadline [] ticks = (Exhausted, 0)"
| "poll_loop deadline (s # feed) ticks =
     (if s = DONE then (Done, 1)
      else (case ticks of
              [] \<Rightarrow> (Exhausted, 1)
            | t # ticks' \<Rightarrow>
                if t > deadline then (TimedOut, 1)
                else (case poll_loop deadline feed ticks' of (e, k) \<Rightarrow> (e, Suc k))))"

definition polled :: "nat \<Rightarrow> AnalogIn \<Rightarrow> AnalogIn" where
  "polled k a = a\<lparr>ai_calls := ai_calls a @ replicate k (AiStatus True),
                  status_feed := drop k (status_feed a)\<rparr>"

text \<open>
  \<open>wait_for_ai_acquisition(start_timestamp=None)\<close>: \<open>now\<close> is the reading of \<open>time.time()\<close>
  taken when no start timestamp is given. The timeout is computed from \<open>self.ai\<close>; the
  division is Python's true division, which raises on a zero frequency. The status is
  polled on \<open>daq.ai\<close>. Python's \<open>True\<close> or \<open>None\<close> is the value \<open>Some True\<close> or \<open>None\<close>.
  The deadline is computed and compared in real numbers; the source computes it in
  doubles, so a clock reading within rounding distance of the deadline (some \<open>1e-14\<close>
  seconds here) can fall on the other side of it in the source.
\<close>

definition wait_for_ai_acquisition ::
    "nat \<Rightarrow> real option \<Rightarrow> real \<Rightarrow> real list \<Rightarrow> world \<Rightarrow> bool option result \<times> world" where
  "wait_for_ai_acquisition self start_timestamp now ticks w =
     (let start = (case start_timestamp of None \<Rightarrow> now | Some t \<Rightarrow> t);
          a = ai (heap w self)
      in if frequency a = 0 then (Raised ZeroDivisionError, w)
         else
           (let read_timeout = 1.9 + of_int (bufferSize a) / frequency a
            in (case daq w of
                  None \<Rightarrow> (Raised (NameError ''daq''), w)
                | Some d \<Rightarrow>
                    (case poll_loop (start + read_timeout) (status_feed (ai (heap w d))) ticks of
                       (Done, k) \<Rightarrow> (Returned None, update_ai d (polled k) w)
                     | (TimedOut, k) \<Rightarrow>
                         (Returned (Some True),
                          log_error ''AI read timeout occured'' (update_ai d (polled k) w))
                     | (Exhausted, k) \<Rightarrow> (Pending, update_ai d (polled k) w)))))"

subsection \<open>Reading\<close>

text \<open>
  \<open>numpy\<close>'s \<open>mean()\<close> and \<open>std()\<close> of a one-dimensional array: the arithmetic mean and the
  population standard deviation, \<open>nan\<close> on an empty array.
\<close>

datatype npfloat = Fin real | NaN

definition np_mean :: "real list \<Rightarrow> npfloat" where
  "np_mean xs = (if xs = [] then NaN else Fin (sum_list xs / real (length xs)))"

definition np_std :: "real list \<Rightarrow> npfloat" where
  "np_std xs =
     (if xs = [] then NaN
      else (let m = sum_list xs / real (length xs)
            in Fin (sqrt (sum_list (map (\<lambda>x. (x - m)\<^sup>2) xs) / real (length xs)))))"

text \<open>
  \<open>read_analog()\<close>. The returned tuple is a list whose elements are \<open>None\<close> (Python's
  \<open>None\<close>) or a float. Acquisition is started on \<open>daq.ai\<close>, the wait is
  \<open>self.wait_for_ai_acquisition()\<close>, the buffer size and the two buffers are read from
  \<open>daq.ai\<close>, and the flag is \<open>self._basic_analog_return_std\<close>.
\<close>

definition read_analog ::
    "nat \<Rightarrow> real \<Rightarrow> real list \<Rightarrow> world \<Rightarrow> npfloat option list result \<times> world" where
  "read_analog self now ticks w =
     (case daq w of
        None \<Rightarrow> (Raised (NameError ''daq''), w)
      | Some d \<Rightarrow>
          (case wait_for_ai_acquisition self None now ticks
                  (update_ai d (ai_call (AiConfigure 0 1)) w) of
             (Raised e, w1) \<Rightarrow> (Raised e, w1)
           | (Pending, w1) \<Rightarrow> (Pending, w1)
           | (Returned (Some True), w1) \<Rightarrow>
               (Returned (concat (replicate
                   (1 + (if basic_analog_return_std (heap w1 self) then 1 else 0)) [None, None])),
                w1)
           | (Returned _, w1) \<Rightarrow>
               (let buf = bufferSize (ai (heap w1 d));
                    c0 = status_data (ai (heap w1 d)) 0 buf;
                    w2 = update_ai d (ai_call (AiStatusData 0 buf)) w1;
                    c1 = status_data (ai (heap w2 d)) 1 buf;
                    w3 = update_ai d (ai_call (AiStatusData 1 buf)) w2
                in if basic_analog_return_std (heap w3 self)
                   then (Returned [Some (np_mean c0), Some (np_mean c1),
                                   Some (np_std c0), Some (np_std c1)], w3)
                   else (Returned [Some (np_mean c0), Some (np_mean c1)], w3))))"

section \<open>Device enumeration and the inventory display (waveforms.py)\<close>

subsection \<open>The driver's answers\<close>

text \<open>
  Every call into the driver either returns a value or raises; a value of type
  \<open>exn + 'a\<close> is the answer the driver gives to one call (\<open>Inl\<close> the exception raised).
  A \<open>device\<close> holds the answers for one enumerated device, in the order in which
  \<open>enumerate_devices\<close> asks for them; \<open>dwf_ai.close()\<close> is called twice in the source.
\<close>

record ch_buf =
  ch :: int
  buf :: int

record config =
  cfg_ai :: ch_buf
  cfg_ao :: ch_buf
  cfg_di :: ch_buf
  cfg_do :: ch_buf

datatype DECI =
    DECIAnalogInChannelCount | DECIAnalogOutChannelCount
  | DECIDigitalInChannelCount | DECIDigitalOutChannelCount
  | DECIAnalogInBufferSize | DECIAnalogOutBufferSize
  | DECIDigitalInBufferSize | DECIDigitalOutBufferSize

record device =
  SN :: "exn + string"
  deviceName :: "exn + string"
  userName :: "exn + string"
  isOpened :: "exn + bool"
  DwfAnalogIn :: "exn + unit"
  channelCount :: "exn + int"
  frequencyInfo :: "exn + real \<times> real"
  ai_close :: "exn + unit"
  FDwfEnumConfig :: "exn + int"
  FDwfEnumConfigInfo :: "nat \<Rightarrow> DECI \<Rightarrow> exn + int"
  ai_close_again :: "exn + unit"

record dwf =
  FDwfGetLastErrorMsg :: "exn + string"
  DwfEnumeration :: "exn + device list"

text \<open>
  The dictionary built for one device: the keys of \<open>'info'\<close> (the key \<open>'maxAIfreq'\<close> is
  present only for a device that could be queried), \<open>'configs'\<close> (the placeholder string
  or the list of configurations) and \<open>'dev'\<close>.
\<close>

record dev_dict =
  info_SN :: string
  info_deviceName :: string
  info_userName :: string
  info_maxAIfreq :: "real option"
  configs :: "string + config list"
  dev :: device

subsection \<open>\<open>enumerate_devices\<close>\<close>

text \<open>Sequencing of calls that may raise: the first exception ends the sequence.\<close>

definition after :: "exn + 'a \<Rightarrow> ('a \<Rightarrow> exn + 'b) \<Rightarrow> exn + 'b" where
  "after r f = (case r of Inl e \<Rightarrow> Inl e | Inr x \<Rightarrow> f x)"

text \<open>Python's \<open>str(i)\<close> of a non-negative integer, and \<open>__name__\<close> of the imported module.\<close>

fun str_nat :: "nat \<Rightarrow> string" where
  "str_nat n =
     (if n < 10 then [''0123456789'' ! n]
      else str_nat (n div 10) @ [''0123456789'' ! (n mod 10)])"

declare str_nat.simps [simp del]

definition modname :: string where
  "modname = ''labphew.controller.digilent.waveforms''"

definition already_open_text :: "nat \<Rightarrow> string \<Rightarrow> string" where
  "already_open_text i sn =
     ''Can't connect to device '' @ str_nat i @ '' ('' @ sn @
     ''), a connection is already open.'' @ [CHR 0x0A] @
     ''Note that the list was stored in '' @ modname @
     ''.devices at the moment of import.''"

definition already_open_warning :: "nat \<Rightarrow> string \<Rightarrow> log_record" where
  "already_open_warning i sn = LogRecord WARNING (already_open_text i sn) []"

definition exception_warning :: "exn \<Rightarrow> log_record" where
  "exception_warning e =
     LogRecord WARNING (''Exception occured while enumerating devices:'' @ [CHR 0x0A]) [e]"

text \<open>
  What becomes of a call \<open>logger.warning(msg, *args)\<close> (the level being enabled and a
  handler attached). The handler formats the record: the text is \<open>msg\<close> itself when no
  argument was passed and \<open>msg % args\<close> otherwise, and Python's \<open>%\<close> raises \<open>TypeError\<close>
  when the message has no conversion specifier for an argument. The handler catches
  that error and either reports it on \<open>stderr\<close>, writing nothing to the log (\<open>Report\<close>,
  the library's default), or raises it to the caller of \<open>warning\<close> (\<open>Reraise\<close>, as a
  capturing test handler does); which one is a parameter. A message that has
  conversion specifiers does not occur in the module; its formatting is not modelled
  (\<open>Unmodelled\<close>).
\<close>

datatype on_error = Report | Reraise

datatype emitted = Line level string | LoggingError log_record | Unmodelled log_record

fun handle :: "on_error \<Rightarrow> log_record \<Rightarrow> exn + emitted" where
  "handle h (LogRecord lvl msg args) =
     (if args = [] then Inr (Line lvl msg)
      else if CHR ''%'' \<in> set msg then Inr (Unmodelled (LogRecord lvl msg args))
      else (case h of
              Report \<Rightarrow> Inr (LoggingError (LogRecord lvl msg args))
            | Reraise \<Rightarrow>
                Inl (TypeError ''not all arguments converted during string formatting'')))"


text \<open>The inner loop \<open>for iCfg in range(0, n_configs)\<close>: eight queries, then the append.\<close>

fun read_configs :: "device \<Rightarrow> nat list \<Rightarrow> exn + config list" where
  "read_configs device [] = Inr []"
| "read_configs device (iCfg # rest) =
     after (FDwfEnumConfigInfo device iCfg DECIAnalogInChannelCount) (\<lambda>aic.
     after (FDwfEnumConfigInfo device iCfg DECIAnalogInBufferSize) (\<lambda>aib.
     after (FDwfEnumConfigInfo device iCfg DECIAnalogOutChannelCount) (\<lambda>aoc.
     after (FDwfEnumConfigInfo device iCfg DECIAnalogOutBufferSize) (\<lambda>aob.
     after (FDwfEnumConfigInfo device iCfg DECIDigitalInChannelCount) (\<lambda>dic.
     after (FDwfEnumConfigInfo device iCfg DECIDigitalInBufferSize) (\<lambda>dib.
     after (FDwfEnumConfigInfo device iCfg DECIDigitalOutChannelCount) (\<lambda>doc.
     after (FDwfEnumConfigInfo device iCfg DECIDigitalOutBufferSize) (\<lambda>dob.
     after (read_configs device rest) (\<lambda>cfgs.
       Inr (\<lparr>cfg_ai = \<lparr>ch = aic, buf = aib\<rparr>, cfg_ao = \<lparr>ch = aoc, buf = aob\<rparr>,
             cfg_di = \<lparr>ch = dic, buf = dib\<rparr>, cfg_do = \<lparr>ch = doc, buf = dob\<rparr>\<rparr> # cfgs))))))))))"

text \<open>
  One iteration of the outer loop up to \<open>devices.append(dev_dict)\<close>: the entry and what
  the iteration wrote to the log, or the exception that ended it.
\<close>

definition enumerate_device ::
    "on_error \<Rightarrow> nat \<Rightarrow> device \<Rightarrow> exn + dev_dict \<times> emitted list" where
  "enumerate_device h i device =
     after (SN device) (\<lambda>sn.
     after (deviceName device) (\<lambda>dn.
     after (userName device) (\<lambda>un.
     after (isOpened device) (\<lambda>opened.
       if opened
       then after (handle h (already_open_warning i sn)) (\<lambda>out.
              Inr (\<lparr>info_SN = sn, info_deviceName = dn, info_userName = un,
                    info_maxAIfreq = None,
                    configs = Inl ''Couldn't connect to device for further information'',
                    dev = device\<rparr>,
                   [out]))
       else
         after (DwfAnalogIn device) (\<lambda>dwf_ai.
         after (channelCount device) (\<lambda>channel.
         after (frequencyInfo device) (\<lambda>(lo, hzFreq).
         after (ai_close device) (\<lambda>closed.
         after (FDwfEnumConfig device) (\<lambda>n_configs.
         after (read_configs device [0..<nat n_configs]) (\<lambda>cfgs.
         after (ai_close_again device) (\<lambda>closed_again.
           Inr (\<lparr>info_SN = sn, info_deviceName = dn, info_userName = un,
                 info_maxAIfreq = Some hzFreq, configs = Inr cfgs, dev = device\<rparr>,
                []))))))))))))"

text \<open>
  The outer loop: \<open>devices\<close> and \<open>lg\<close> are the list built and the log written so far.
  An exception leaves the loop with both as they are.
\<close>

fun enumerate_loop ::
    "on_error \<Rightarrow> nat \<Rightarrow> device list \<Rightarrow> dev_dict list \<Rightarrow> emitted list \<Rightarrow>
     exn option \<times> dev_dict list \<times> emitted list" where
  "enumerate_loop h i [] devices lg = (None, devices, lg)"
| "enumerate_loop h i (device # rest) devices lg =
     (case enumerate_device h i device of
        Inl e \<Rightarrow> (Some e, devices, lg)
      | Inr (dev_dict, outs) \<Rightarrow>
          enumerate_loop h (Suc i) rest (devices @ [dev_dict]) (lg @ outs))"

text \<open>
  \<open>enumerate_devices()\<close>. The \<open>try\<close> block starts by logging the driver's last error
  message as a warning, then enumerates. The bare \<open>except\<close> calls
  \<open>logger.warning("Exception occured while enumerating devices:\n", exc_info()[0])\<close>: a
  message without a conversion specifier, with the exception's type as argument. If
  that call raises, the error leaves the function; otherwise \<open>return devices\<close> is
  reached. The result is the returned list or the exception raised, and the log.
\<close>

definition enumerate_devices :: "on_error \<Rightarrow> dwf \<Rightarrow> (exn + dev_dict list) \<times> emitted list" where
  "enumerate_devices h drv =
     (case (case FDwfGetLastErrorMsg drv of
              Inl e \<Rightarrow> (Some e, [], [])
            | Inr msg \<Rightarrow>
                (case handle h (LogRecord WARNING msg []) of
                   Inl e \<Rightarrow> (Some e, [], [])
                 | Inr out \<Rightarrow>
                     (case DwfEnumeration drv of
                        Inl e \<Rightarrow> (Some e, [], [out])
                      | Inr devs \<Rightarrow> enumerate_loop h 0 devs [] [out]))) of
        (None, devices, lg) \<Rightarrow> (Inr devices, lg)
      | (Some e, devices, lg) \<Rightarrow>
          (case handle h (exception_warning e) of
             Inl raised \<Rightarrow> (Inl raised, lg)
           | Inr out \<Rightarrow> (Inr devices, lg @ [out])))"

subsection \<open>\<open>print_device_list\<close>\<close>

text \<open>
  A printed line is represented by what it shows (the formatting of numbers into text is
  not modelled). \<open>IncompleteNotice\<close> is the closing notice
  "The device list appears to be incomplete. ...".
\<close>

datatype line =
    RuleLine
  | DeviceLine nat
  | DeviceNameLine string
  | UserNameLine string
  | SNLine string
  | MaxAIfreqLine real
  | PlaceholderLine string
  | ConfigHeaderLine
  | ConfigLine nat config
  | IncompleteNotice

text \<open>
  The loop \<open>for i, device in enumerate(devices_list)\<close>. The variable \<open>incomplete\<close> takes
  the values \<open>False\<close>, \<open>True\<close> and \<open>None\<close> (here \<open>Some False\<close>, \<open>Some True\<close>, \<open>None\<close>).
\<close>

fun print_entries :: "nat \<Rightarrow> dev_dict list \<Rightarrow> bool option \<Rightarrow> line list \<times> bool option" where
  "print_entries i [] incomplete = ([], incomplete)"
| "print_entries i (device # rest) incomplete =
     (let head = [RuleLine, DeviceLine i, DeviceNameLine (info_deviceName device),
                  UserNameLine (info_userName device), SNLine (info_SN device)] @
                 (case info_maxAIfreq device of None \<Rightarrow> [] | Some f \<Rightarrow> [MaxAIfreqLine f])
      in (case configs device of
            Inl s \<Rightarrow>
              (case print_entries (Suc i) rest
                      (if incomplete \<noteq> None then Some True else incomplete) of
                 (out, inc) \<Rightarrow> (head @ [PlaceholderLine s] @ out, inc))
          | Inr cfgs \<Rightarrow>
              (case print_entries (Suc i) rest incomplete of
                 (out, inc) \<Rightarrow>
                   (head @ [ConfigHeaderLine] @
                    map (\<lambda>(iCfg, conf). ConfigLine iCfg conf) (enumerate 0 cfgs) @ out, inc))))"

text \<open>
  \<open>print_device_list(devices_list=None)\<close>; \<open>devices\<close> is the module's list stored at import.
\<close>

definition print_device_list :: "dev_dict list \<Rightarrow> dev_dict list option \<Rightarrow> line list" where
  "print_device_list devices devices_list =
     (case (case devices_list of
              None \<Rightarrow> print_entries 0 devices None
            | Some l \<Rightarrow> print_entries 0 l (Some False)) of
        (out, incomplete) \<Rightarrow> out @ (if incomplete = Some True then [IncompleteNotice] else []))"

section \<open>The monitor window (monitor_view.py)\<close>

text \<open>
  \<open>closeEvent\<close>: \<open>question\<close> is the dialog \<open>QMessageBox.question\<close>, which returns the
  button the user chose.
\<close>

datatype StandardButton = Yes | No | OtherButton

record QCloseEvent =
  accepted :: bool

definition closeEvent ::
    "(string \<Rightarrow> string \<Rightarrow> StandardButton \<Rightarrow> StandardButton \<Rightarrow> StandardButton) \<Rightarrow>
     QCloseEvent \<Rightarrow> QCloseEvent" where
  "closeEvent question event =
     (let quit_msg = ''Are you sure you want to exit the program?'';
          reply = question ''Message'' quit_msg Yes No
      in event\<lparr>accepted := True\<rparr>)"

text \<open>
  The window's state as far as starting and stopping go. \<open>threads\<close> are the \<open>WorkThread\<close>
  objects created so far and \<open>worker_thread\<close> the index of the one the attribute refers to
  (\<open>None\<close> before the first assignment); \<open>start()\<close> makes a thread \<open>Started\<close>,
  \<open>terminate()\<close> makes it \<open>Terminated\<close>. \<open>timer_active\<close> is the state of the one
  \<open>QTimer\<close> the constructor creates. \<open>monitor_props\<close> is
  \<open>operator.properties['Monitor']\<close>, \<open>time_resolution\<close> is
  \<open>operator.properties['time_resolution']\<close>. The unit parser \<open>Q_\<close> and the conversion
  \<open>m_as\<close> are not in the source files: they are the parameters \<open>Q\<close> and \<open>m_as\<close>, and
  may raise.
\<close>

type_synonym quantity = "real \<times> string"

datatype thread_state = Started | Terminated

record MonitorWindow =
  running_monitor :: bool
  worker_thread :: "nat option"
  threads :: "thread_state list"
  timer_active :: bool
  timer_interval :: real
  delayLine :: string
  time_resolution :: "quantity option"
  monitor_props :: "string \<rightharpoonup> string"

definition MonitorWindow_init :: "string \<Rightarrow> (string \<rightharpoonup> string) \<Rightarrow> MonitorWindow" where
  "MonitorWindow_init text props =
     \<lparr>running_monitor = False, worker_thread = None, threads = [], timer_active = False,
      timer_interval = 0, delayLine = text, time_resolution = None, monitor_props = props\<rparr>"

definition update_properties :: "(string \<rightharpoonup> string) \<Rightarrow> MonitorWindow \<Rightarrow> string list result \<times> MonitorWindow" where
  "update_properties props self =
     (let s1 = self\<lparr>monitor_props := props\<rparr>
      in (case props ''time_resolution'' of
            None \<Rightarrow> (Raised (KeyError ''time_resolution''), s1)
          | Some t \<Rightarrow> (Returned [], s1\<lparr>delayLine := t\<rparr>)))"

definition start_monitor ::
    "(string \<Rightarrow> exn + quantity) \<Rightarrow> (quantity \<Rightarrow> string \<Rightarrow> exn + real) \<Rightarrow>
     MonitorWindow \<Rightarrow> string list result \<times> MonitorWindow" where
  "start_monitor Q m_as self =
     (if running_monitor self then (Returned [''Monitor already running''], self)
      else
        (let s1 = self\<lparr>running_monitor := True\<rparr>
         in (case Q (delayLine s1) of
               Inl e \<Rightarrow> (Raised e, s1)
             | Inr delay \<Rightarrow>
                 (let s2 = s1\<lparr>time_resolution := Some delay\<rparr>;
                      s3 = s2\<lparr>worker_thread := Some (length (threads s2)),
                              threads := threads s2 @ [Started]\<rparr>
                  in (case monitor_props s3 ''refresh_time'' of
                        None \<Rightarrow> (Raised (KeyError ''refresh_time''), s3)
                      | Some txt \<Rightarrow>
                          (case Q txt of
                             Inl e \<Rightarrow> (Raised e, s3)
                           | Inr refresh_time \<Rightarrow>
                               (case m_as refresh_time ''ms'' of
                                  Inl e \<Rightarrow> (Raised e, s3)
                                | Inr ms \<Rightarrow>
                                    (Returned [],
                                     s3\<lparr>timer_active := True, timer_interval := ms\<rparr>))))))))"

definition stop_monitor :: "MonitorWindow \<Rightarrow> string list result \<times> MonitorWindow" where
  "stop_monitor self =
     (if \<not> running_monitor self then (Returned [''Monitor not running''], self)
      else
        (let s1 = self\<lparr>timer_active := False\<rparr>
         in (case worker_thread s1 of
               None \<Rightarrow> (Raised (AttributeError ''worker_thread''), s1)
             | Some t \<Rightarrow>
                 (Returned [],
                  s1\<lparr>threads := (threads s1)[t := Terminated], running_monitor := False\<rparr>))))"

text \<open>The states the window can be in: those its methods lead to from construction.\<close>

inductive reachable :: "MonitorWindow \<Rightarrow> bool" where
  init: "reachable (MonitorWindow_init text props)"
| start: "reachable s \<Longrightarrow> reachable (snd (start_monitor Q m_as s))"
| stop: "reachable s \<Longrightarrow> reachable (snd (stop_monitor s))"
| props: "reachable s \<Longrightarrow> reachable (snd (update_properties p s))"

definition active_workers :: "MonitorWindow \<Rightarrow> nat" where
  "active_workers s = length (filter (\<lambda>t. t = Started) (threads s))"

definition active_timers :: "MonitorWindow \<Rightarrow> nat" where
  "active_timers s = (if timer_active s then 1 else 0)"

definition workers_ok :: "MonitorWindow \<Rightarrow> bool" where
  "workers_ok s =
     (\<exists>n. (threads s = replicate n Terminated \<and>
            (worker_thread s = None \<and> n = 0 \<or> worker_thread s = Some (n - 1) \<and> 0 < n)) \<or>
           (threads s = replicate n Terminated @ [Started] \<and> worker_thread s = Some n \<and>
            running_monitor s))"

subsection \<open>Example devices and windows\<close>

definition ad2 :: device where
  "ad2 =
     \<lparr>SN = Inr ''SN:210321A1B2C3'', deviceName = Inr ''Analog Discovery 2'',
      userName = Inr ''lab'', isOpened = Inr False, DwfAnalogIn = Inr (),
      channelCount = Inr 2, frequencyInfo = Inr (0.1, 100000000), ai_close = Inr (),
      FDwfEnumConfig = Inr 1,
      FDwfEnumConfigInfo = (\<lambda>iCfg info. Inr (if info = DECIAnalogInBufferSize then 8192 else 2)),
      ai_close_again = Inr ()\<rparr>"

definition opened_device :: device where
  "opened_device = ad2\<lparr>isOpened := Inr True\<rparr>"

definition broken_device :: device where
  "broken_device = ad2\<lparr>frequencyInfo := Inl (OtherError ''device unplugged'')\<rparr>"

definition open_entry :: dev_dict where
  "open_entry =
     \<lparr>info_SN = ''SN:210321A1B2C3'', info_deviceName = ''Analog Discovery 2'',
      info_userName = ''lab'', info_maxAIfreq = None,
      configs = Inl ''Couldn't connect to device for further information'',
      dev = opened_device\<rparr>"

definition parse_ok :: "string \<Rightarrow> exn + quantity" where
  "parse_ok txt = Inr (1, txt)"

definition magnitude_ok :: "quantity \<Rightarrow> string \<Rightarrow> exn + real" where
  "magnitude_ok q unit_name = Inr (fst q)"

definition started_window :: MonitorWindow where
  "started_window =
     snd (start_monitor parse_ok magnitude_ok
            (MonitorWindow_init ''10ms'' [''refresh_time'' \<mapsto> ''100ms'']))"

subsection \<open>Example worlds\<close>

text \<open>
  \<open>device_ai\<close> is the analog-in sub-interface of a device before the constructor's preset.
  \<open>script_world\<close> is the world of the script part of the module: \<open>daq\<close> is bound to
  object 0, and the device's buffers hold the constant 3. In \<open>own_done_world\<close> the
  device of object 0 (bound to \<open>daq\<close>) never reports \<open>DONE\<close> while the device of every
  other object reports \<open>DONE\<close> at the first poll. In \<open>two_controllers\<close> object 0
  (bound to \<open>daq\<close>) samples 1 on channel 0 and 2 on channel 1, every other object 5 and 6.
  \<open>call_preset\<close> is the method call \<open>obj.preset_basic_analog(...)\<close> on an object of the
  world.
\<close>

definition device_ai :: "ai_state list \<Rightarrow> (int \<Rightarrow> int \<Rightarrow> real list) \<Rightarrow> AnalogIn" where
  "device_ai feed data =
     \<lparr>bufferSize = 0, frequency = 0, ai_calls = [], status_feed = feed, status_data = data\<rparr>"

definition script_world :: "ai_state list \<Rightarrow> world" where
  "script_world feed =
     \<lparr>daq = Some 0,
      heap = (\<lambda>obj. DfwController_init (device_ai feed (\<lambda>ch len. replicate (nat len) 3)) 100),
      logger = []\<rparr>"

definition own_done_world :: world where
  "own_done_world =
     \<lparr>daq = Some 0,
      heap = (\<lambda>obj. DfwController_init
                (device_ai (if obj = 0 then [RUNNING, RUNNING, RUNNING] else [DONE])
                   (\<lambda>ch len. replicate (nat len) 3)) 100),
      logger = []\<rparr>"

definition two_controllers :: world where
  "two_controllers =
     \<lparr>daq = Some 0,
      heap = (\<lambda>obj. DfwController_init
                (device_ai [DONE]
                   (\<lambda>ch len. replicate (nat len) (of_int ch + (if obj = 0 then 1 else 5)))) 100),
      logger = []\<rparr>"

definition call_preset :: "nat \<Rightarrow> int \<Rightarrow> real \<Rightarrow> real \<Rightarrow> bool \<Rightarrow> world \<Rightarrow> world" where
  "call_preset obj n freq range_v return_std w =
     w\<lparr>heap := (heap w)(obj := preset_basic_analog n freq range_v return_std (heap w obj))\<rparr>"

text \<open>A controller right after construction at clock reading 100, on a silent device.\<close>

definition idle_ai :: AnalogIn where
  "idle_ai = \<lparr>bufferSize = 0, frequency = 0, ai_calls = [], status_feed = [],
              status_data = (\<lambda>ch len. [])\<rparr>"

definition fresh :: DfwController where
  "fresh = DfwController_init idle_ai 100"

section \<open>Properties of the controller\<close>

lemma write_analog_time_stabilized_mono:
  "time_stabilized self \<le> time_stabilized (write_analog volt channel now0 now1 self)"
  by (simp add: write_analog_def Let_def max.coboundedI1)

lemma write_analog_channel0:
  "channel = 0 \<or> channel = -1 \<Longrightarrow>
     last_ao0 (write_analog volt channel now0 now1 self) = volt \<and>
     last_ao1 (write_analog volt channel now0 now1 self) = volt \<and>
     time_stabilized (write_analog volt channel now0 now1 self) =
       max (max (time_stabilized self) (now0 + 0.013 + 0.005 * \<bar>last_ao0 self - volt\<bar>))
           (now1 + 0.013 + 0.005 * \<bar>last_ao1 self - volt\<bar>)"
  by (auto simp add: write_analog_def Let_def)

lemma write_analog_other_channel:
  "channel \<noteq> 0 \<Longrightarrow> channel \<noteq> -1 \<Longrightarrow>
     last_ao0 (write_analog volt channel now0 now1 self) = last_ao0 self \<and>
     last_ao1 (write_analog volt channel now0 now1 self) = last_ao1 self \<and>
     time_stabilized (write_analog volt channel now0 now1 self) = time_stabilized self"
  by (simp add: write_analog_def Let_def)

lemma fresh_fields:
  "last_ao0 fresh = 0" "last_ao1 fresh = 0" "time_stabilized fresh = 100"
  "basic_analog_return_std fresh = False"
  by (simp_all add: fresh_def DfwController_init_def preset_basic_analog_def Let_def)

text \<open>
  C1. A write of \<open>v\<close> to channel 1 should store \<open>v\<close> as channel 1's last voltage and move the
  stabilized-at timestamp to \<open>max(previous, now + 0.013 + 0.005*|v - last voltage of channel 1|)\<close>.
  In the source the second branch repeats the condition of the first
  (\<open>channel == 0 or channel == -1\<close>), so \<open>write_analog(-0.7, 1)\<close> on a fresh controller
  leaves the stored voltage of channel 1 at 0 and the timestamp at its old value 100,
  where the claim gives -0.7 and 100.0165.
\<close>

theorem write_analog_channel1_not_recorded:
  "last_ao1 (write_analog (-0.7) 1 100 100 fresh) = 0 \<and>
   last_ao1 (write_analog (-0.7) 1 100 100 fresh) \<noteq> -0.7 \<and>
   time_stabilized (write_analog (-0.7) 1 100 100 fresh) = 100 \<and>
   max (time_stabilized fresh) (100 + 0.013 + 0.005 * \<bar>- 0.7 - last_ao1 fresh\<bar>) = 100.0165"
  by (simp add: write_analog_def Let_def fresh_fields)

text \<open>
  C6. \<open>wait_for_stabilization\<close> returns a non-negative value; when the stabilized-at
  timestamp lies in the future it sleeps for the remaining time and returns it, otherwise
  it returns 0 without sleeping; and when it returns (the scheduler's overhead being
  non-negative) the timestamp is not after the clock.
\<close>

theorem wait_for_stabilization_spec:
  assumes "0 \<le> overhead"
  shows "0 \<le> fst (wait_for_stabilization now self) \<and>
         (now < time_stabilized self \<longrightarrow>
            wait_for_stabilization now self =
              (time_stabilized self - now, Some (time_stabilized self - now))) \<and>
         (time_stabilized self \<le> now \<longrightarrow> wait_for_stabilization now self = (0, None)) \<and>
         time_stabilized self \<le>
           clock_after now (snd (wait_for_stabilization now self)) overhead"
  using assms by (auto simp add: wait_for_stabilization_def clock_after_def Let_def)

theorem wait_for_stabilization_spec_witness:
  "(0::real) \<le> 0.001 \<and>
   (100::real) < time_stabilized (write_analog 2 0 100 100 fresh) \<and>
   wait_for_stabilization 100 (write_analog 2 0 100 100 fresh) = (0.023, Some 0.023) \<and>
   time_stabilized (write_analog 2 0 100 100 fresh) \<le>
     clock_after 100 (snd (wait_for_stabilization 100 (write_analog 2 0 100 100 fresh))) 0.001"
  using wait_for_stabilization_spec [of "0.001" 100 "write_analog 2 0 100 100 fresh"]
  by (simp add: write_analog_def Let_def fresh_fields clock_after_def)

lemma poll_loop_timeout:
  "k < length feed \<Longrightarrow> k < length ticks \<Longrightarrow> (\<forall>i\<le>k. feed ! i \<noteq> DONE) \<Longrightarrow>
   deadline < ticks ! k \<Longrightarrow> fst (poll_loop deadline feed ticks) = TimedOut"
proof (induction feed arbitrary: ticks k)
  case Nil
  then show ?case by simp
next
  case (Cons s feed)
  from Cons.prems(3) have s: "s \<noteq> DONE" by (metis le0 nth_Cons_0)
  from Cons.prems(2) obtain t ticks' where ticks: "ticks = t # ticks'"
    by (cases ticks) auto
  show ?case
  proof (cases "deadline < t")
    case True
    with s ticks show ?thesis by simp
  next
    case False
    with Cons.prems(4) ticks obtain j where k: "k = Suc j"
      by (cases k) auto
    from Cons.prems k ticks have "fst (poll_loop deadline feed ticks') = TimedOut"
      by (intro Cons.IH [of j]) auto
    with s ticks False show ?thesis
      by (auto split: prod.splits)
  qed
qed

lemma poll_loop_done:
  "k < length feed \<Longrightarrow> k \<le> length ticks \<Longrightarrow> feed ! k = DONE \<Longrightarrow>
   (\<forall>i<k. feed ! i \<noteq> DONE \<and> ticks ! i \<le> deadline) \<Longrightarrow>
   poll_loop deadline feed ticks = (Done, Suc k)"
proof (induction feed arbitrary: ticks k)
  case Nil
  then show ?case by simp
next
  case (Cons s feed)
  show ?case
  proof (cases k)
    case 0
    with Cons.prems show ?thesis by simp
  next
    case (Suc j)
    with Cons.prems(4) have s: "s \<noteq> DONE" by (metis zero_less_Suc nth_Cons_0)
    from Cons.prems(2) Suc obtain t ticks' where ticks: "ticks = t # ticks'"
      by (cases ticks) auto
    from Cons.prems(4) Suc ticks have t: "t \<le> deadline"
      by (metis zero_less_Suc nth_Cons_0)
    from Cons.prems Suc ticks have "poll_loop deadline feed ticks' = (Done, Suc j)"
      by (intro Cons.IH [of j]) auto
    with s ticks t Suc show ?thesis by simp
  qed
qed

lemma init_fields:
  "bufferSize (ai (DfwController_init a now)) = 84"
  "frequency (ai (DfwController_init a now)) = 10000"
  "status_feed (ai (DfwController_init a now)) = status_feed a"
  "status_data (ai (DfwController_init a now)) = status_data a"
  "basic_analog_return_std (DfwController_init a now) = False"
  by (simp_all add: DfwController_init_def preset_basic_analog_def Let_def
        bufferSizeSet_def frequencySet_def ai_call_def)

lemma update_ai_simps:
  "daq (update_ai obj f w) = daq w"
  "logger (update_ai obj f w) = logger w"
  "heap (update_ai obj f w) x = (if x = obj then (heap w obj)\<lparr>ai := f (ai (heap w obj))\<rparr> else heap w x)"
  by (simp_all add: update_ai_def)

lemma log_error_simps:
  "daq (log_error m w) = daq w"
  "heap (log_error m w) = heap w"
  "logger (log_error m w) = logger w @ [LogRecord ERROR m []]"
  by (simp_all add: log_error_def)

lemma ai_call_simps:
  "bufferSize (ai_call c a) = bufferSize a"
  "frequency (ai_call c a) = frequency a"
  "status_feed (ai_call c a) = status_feed a"
  "status_data (ai_call c a) = status_data a"
  "ai_calls (ai_call c a) = ai_calls a @ [c]"
  by (simp_all add: ai_call_def)

lemma polled_simps:
  "bufferSize (polled k a) = bufferSize a"
  "frequency (polled k a) = frequency a"
  "status_data (polled k a) = status_data a"
  "ai_calls (polled k a) = ai_calls a @ replicate k (AiStatus True)"
  by (simp_all add: polled_def)

lemma wait_for_ai_acquisition_timed_out:
  assumes "daq w = Some d" and "frequency (ai (heap w self)) \<noteq> 0"
    and "fst (poll_loop
           ((case start_timestamp of None \<Rightarrow> now | Some t \<Rightarrow> t) +
            (1.9 + of_int (bufferSize (ai (heap w self))) / frequency (ai (heap w self))))
           (status_feed (ai (heap w d))) ticks) = TimedOut"
  shows "\<exists>n. wait_for_ai_acquisition self start_timestamp now ticks w =
           (Returned (Some True), log_error ''AI read timeout occured'' (update_ai d (polled n) w))"
proof -
  from assms(3) obtain n where
    "poll_loop ((case start_timestamp of None \<Rightarrow> now | Some t \<Rightarrow> t) +
            (1.9 + of_int (bufferSize (ai (heap w self))) / frequency (ai (heap w self))))
           (status_feed (ai (heap w d))) ticks = (TimedOut, n)"
    by (metis prod.collapse)
  with assms(1,2) show ?thesis
    by (auto simp add: wait_for_ai_acquisition_def Let_def)
qed

lemma preset_keeps_return_std:
  "basic_analog_return_std (preset_basic_analog n freq range_v return_std self) =
     basic_analog_return_std self"
  by (simp add: preset_basic_analog_def Let_def)

lemma init_ai_calls:
  "ai_calls (ai (DfwController_init a now)) =
     ai_calls a @ [AiReset, AiBufferSizeSet 84, AiFrequencySet 10000, AiChannelRangeSet (-1) 50,
                   AiConfigure 1 0]"
  by (simp add: DfwController_init_def preset_basic_analog_def Let_def
        bufferSizeSet_def frequencySet_def ai_call_def)

text \<open>
  C2. \<open>read_analog\<close> should start the acquisition on the analog-in sub-interface of the
  instance it is called on and read that instance's buffers. The source names the module
  global \<open>daq\<close> where \<open>self\<close> is meant: called on object 1 while \<open>daq\<close> is object 0, it
  starts the acquisition on object 0, polls and reads object 0's buffers (means 1 and 2,
  not 5 and 6) and makes none of these calls on object 1's sub-interface (only the
  timeout is computed from object 1's settings); and where \<open>daq\<close> is not
  bound (the module imported, not run as a script) it raises \<open>NameError\<close>.
\<close>

theorem read_analog_uses_global_daq:
  "fst (read_analog 1 100 [] two_controllers) = Returned [Some (Fin 1), Some (Fin 2)] \<and>
   ai_calls (ai (heap (snd (read_analog 1 100 [] two_controllers)) 1)) =
     ai_calls (ai (heap two_controllers 1)) \<and>
   ai_calls (ai (heap (snd (read_analog 1 100 [] two_controllers)) 0)) =
     ai_calls (ai (heap two_controllers 0)) @
       [AiConfigure 0 1, AiStatus True, AiStatusData 0 84, AiStatusData 1 84] \<and>
   status_data (ai (heap two_controllers 1)) 0 84 = replicate 84 5 \<and>
   fst (read_analog 1 100 [] (two_controllers\<lparr>daq := None\<rparr>)) = Raised (NameError ''daq'')"
  by (simp add: read_analog_def wait_for_ai_acquisition_def two_controllers_def Let_def
        update_ai_simps ai_call_simps polled_simps init_fields init_ai_calls device_ai_def
        np_mean_def sum_list_replicate)

text \<open>
  What holds of a timed-out read in exact arithmetic when \<open>daq\<close> is bound and the
  frequency is not zero: the result is a tuple of \<open>None\<close>s, two of them when the flag
  \<open>_basic_analog_return_std\<close> is unset and four when it is set, and exactly one error
  record is appended to the log.
\<close>

lemma read_analog_timeout_bound_daq:
  assumes "daq w = Some d" and "frequency (ai (heap w self)) \<noteq> 0"
    and "feed = status_feed (ai (heap w d))"
    and "deadline = now + (1.9 + of_int (bufferSize (ai (heap w self))) / frequency (ai (heap w self)))"
    and "k < length feed" and "k < length ticks"
    and "\<forall>i\<le>k. feed ! i \<noteq> DONE" and "deadline < ticks ! k"
  shows "fst (read_analog self now ticks w) =
           Returned (if basic_analog_return_std (heap w self)
                     then [None, None, None, None] else [None, None]) \<and>
         logger (snd (read_analog self now ticks w)) =
           logger w @ [LogRecord ERROR ''AI read timeout occured'' []]"
proof -
  let ?w = "update_ai d (ai_call (AiConfigure 0 1)) w"
  have same: "daq ?w = Some d" "frequency (ai (heap ?w self)) = frequency (ai (heap w self))"
    "bufferSize (ai (heap ?w self)) = bufferSize (ai (heap w self))"
    "status_feed (ai (heap ?w d)) = feed"
    using assms(1,3) by (simp_all add: update_ai_simps ai_call_simps)
  have "fst (poll_loop deadline feed ticks) = TimedOut"
    using assms(5-8) by (rule poll_loop_timeout)
  then have "\<exists>n. wait_for_ai_acquisition self None now ticks ?w =
           (Returned (Some True), log_error ''AI read timeout occured'' (update_ai d (polled n) ?w))"
    using same assms(2,4) by (intro wait_for_ai_acquisition_timed_out) simp_all
  then obtain n where "wait_for_ai_acquisition self None now ticks ?w =
           (Returned (Some True), log_error ''AI read timeout occured'' (update_ai d (polled n) ?w))"
    by blast
  then show ?thesis
    using assms(1) by (simp add: read_analog_def update_ai_simps log_error_simps)
qed

text \<open>
  C3. A read during which the device never reports \<open>DONE\<close> before the timeout should
  return \<open>(None, None)\<close>, or four \<open>None\<close>s when the standard deviation was asked for, log
  exactly one error and raise nothing. In a program that imports the module \<open>daq\<close> is
  not bound: the read raises \<open>NameError\<close> at its first statement and logs nothing. And
  after \<open>preset_basic_analog(..., return_std=True)\<close> the timed-out read returns two
  \<open>None\<close>s, not four, since the preset does not store the flag.
\<close>

theorem read_analog_timeout_not_as_claimed:
  "fst (read_analog 0 100 [100.5, 101, 102]
          ((script_world [RUNNING, RUNNING, RUNNING])\<lparr>daq := None\<rparr>)) =
     Raised (NameError ''daq'') \<and>
   logger (snd (read_analog 0 100 [100.5, 101, 102]
          ((script_world [RUNNING, RUNNING, RUNNING])\<lparr>daq := None\<rparr>))) = [] \<and>
   fst (read_analog 0 100 [100.5, 101, 102]
          (call_preset 0 84 10000 50 True (script_world [RUNNING, RUNNING, RUNNING]))) =
     Returned [None, None]"
  by (simp add: read_analog_def wait_for_ai_acquisition_def script_world_def call_preset_def
        Let_def update_ai_simps log_error_simps ai_call_simps polled_simps init_fields
        device_ai_def preset_keeps_return_std preset_basic_analog_def bufferSizeSet_def
        frequencySet_def)

text \<open>
  C4. After \<open>preset_basic_analog(..., return_std=True)\<close> a successful read should return
  four values. The preset never stores its flag, so \<open>_basic_analog_return_std\<close> keeps the
  constructor's \<open>False\<close> and the read returns the two means only.
\<close>

theorem preset_ignores_return_std:
  "basic_analog_return_std (heap (call_preset 0 84 10000 50 True (script_world [DONE])) 0) = False \<and>
   fst (read_analog 0 100 [] (call_preset 0 84 10000 50 True (script_world [DONE]))) =
     Returned [Some (Fin 3), Some (Fin 3)]"
  by (simp add: read_analog_def wait_for_ai_acquisition_def script_world_def call_preset_def
        Let_def update_ai_simps ai_call_simps polled_simps init_fields device_ai_def
        np_mean_def sum_list_replicate preset_keeps_return_std preset_basic_analog_def bufferSizeSet_def
        frequencySet_def)

text \<open>
  What holds of the wait in exact arithmetic when \<open>daq\<close> is bound and the frequency \<open>f\<close>
  is not zero: the timeout is \<open>1.9 + n/f\<close> seconds (\<open>n\<close> and \<open>f\<close> those of \<open>self.ai\<close>)
  from the start timestamp; the wait returns \<open>True\<close> at the first clock reading beyond
  that deadline if the device of \<open>daq\<close> has not reported \<open>DONE\<close> by then, and \<open>None\<close> when
  that device reports \<open>DONE\<close> after readings within the deadline.
\<close>

lemma wait_for_ai_acquisition_bound_daq:
  assumes "daq w = Some d" and "frequency (ai (heap w self)) \<noteq> 0"
    and "feed = status_feed (ai (heap w d))"
    and "start = (case start_timestamp of None \<Rightarrow> now | Some t \<Rightarrow> t)"
    and "deadline = start + (1.9 + of_int (bufferSize (ai (heap w self))) / frequency (ai (heap w self)))"
  shows "(k < length feed \<and> k < length ticks \<and> (\<forall>i\<le>k. feed ! i \<noteq> DONE) \<and> deadline < ticks ! k
            \<longrightarrow> fst (wait_for_ai_acquisition self start_timestamp now ticks w) = Returned (Some True)) \<and>
         (k < length feed \<and> k \<le> length ticks \<and> feed ! k = DONE \<and>
            (\<forall>i<k. feed ! i \<noteq> DONE \<and> ticks ! i \<le> deadline)
            \<longrightarrow> fst (wait_for_ai_acquisition self start_timestamp now ticks w) = Returned None) \<and>
         (bufferSize (ai (heap w self)) = 84 \<and> frequency (ai (heap w self)) = 10000
            \<longrightarrow> deadline = start + 1.9084)"
proof (intro conjI impI)
  assume h: "k < length feed \<and> k < length ticks \<and> (\<forall>i\<le>k. feed ! i \<noteq> DONE) \<and> deadline < ticks ! k"
  then have "fst (poll_loop deadline feed ticks) = TimedOut"
    using poll_loop_timeout [of k feed ticks deadline] by blast
  then obtain n where "poll_loop deadline feed ticks = (TimedOut, n)"
    by (cases "poll_loop deadline feed ticks") auto
  with assms show "fst (wait_for_ai_acquisition self start_timestamp now ticks w) = Returned (Some True)"
    by (simp add: wait_for_ai_acquisition_def Let_def)
next
  assume h: "k < length feed \<and> k \<le> length ticks \<and> feed ! k = DONE \<and>
            (\<forall>i<k. feed ! i \<noteq> DONE \<and> ticks ! i \<le> deadline)"
  then have "poll_loop deadline feed ticks = (Done, Suc k)"
    using poll_loop_done [of k feed ticks deadline] by blast
  with assms show "fst (wait_for_ai_acquisition self start_timestamp now ticks w) = Returned None"
    by (simp add: wait_for_ai_acquisition_def Let_def)
next
  assume "bufferSize (ai (heap w self)) = 84 \<and> frequency (ai (heap w self)) = 10000"
  with assms(5) show "deadline = start + 1.9084" by simp
qed

text \<open>
  C5. The wait should return \<open>True\<close> when the timeout of \<open>1.9 + n/f\<close> seconds has passed
  and the controller's device is not done, and \<open>None\<close> when that device reports done. In
  a program that imports the module \<open>daq\<close> is not bound, and the wait raises \<open>NameError\<close>
  at its first poll. Where \<open>daq\<close> is bound to another controller, it is that
  controller's device that is polled: called on object 1, whose device reports \<open>DONE\<close>,
  the wait returns \<open>True\<close> because the device of object 0 never does.
\<close>

theorem wait_for_ai_acquisition_polls_global_daq:
  "fst (wait_for_ai_acquisition 0 None 100 [100.5, 101, 102]
          ((script_world [DONE])\<lparr>daq := None\<rparr>)) = Raised (NameError ''daq'') \<and>
   status_feed (ai (heap own_done_world 1)) = [DONE] \<and>
   fst (wait_for_ai_acquisition 1 None 100 [100.5, 101, 102] own_done_world) =
     Returned (Some True)"
  by (simp add: wait_for_ai_acquisition_def script_world_def own_done_world_def Let_def
        init_fields device_ai_def)

section \<open>Properties of the enumeration and the display\<close>

lemma handle_no_args: "handle h (LogRecord lvl msg []) = Inr (Line lvl msg)"
  by simp

lemma handle_exception_warning:
  "handle Report (exception_warning e) = Inr (LoggingError (exception_warning e))"
  "handle Reraise (exception_warning e) =
     Inl (TypeError ''not all arguments converted during string formatting'')"
  by (simp_all add: exception_warning_def)



lemma enumerate_opened_device:
  "enumerate_device h i opened_device =
     Inr (open_entry, [Line WARNING (already_open_text i ''SN:210321A1B2C3'')])"
  by (simp add: enumerate_device_def after_def opened_device_def ad2_def open_entry_def
        already_open_warning_def)

lemma enumerate_broken_device:
  "enumerate_device h i broken_device = Inl (OtherError ''device unplugged'')"
  by (simp add: enumerate_device_def after_def broken_device_def ad2_def)

text \<open>
  The call of \<open>logger.warning\<close> in the \<open>except\<close> block cannot be formatted. Under a handler
  that raises formatting errors the \<open>TypeError\<close> leaves \<open>enumerate_devices\<close>, and no list
  is returned.
\<close>

lemma enumerate_devices_reraising_handler:
  "enumerate_devices Reraise
     \<lparr>FDwfGetLastErrorMsg = Inr [], DwfEnumeration = Inr [opened_device, broken_device]\<rparr> =
     (Inl (TypeError ''not all arguments converted during string formatting''),
      [Line WARNING [], Line WARNING (already_open_text 0 ''SN:210321A1B2C3'')])"
  by (simp add: enumerate_devices_def enumerate_opened_device enumerate_broken_device
        handle_exception_warning)




lemma print_entries_result:
  "print_entries i ds inc = (out, r) \<Longrightarrow>
     IncompleteNotice \<notin> set out \<and>
     r = (if inc \<noteq> None \<and> (\<exists>d \<in> set ds. isl (configs d)) then Some True else inc)"
proof (induction ds arbitrary: i inc out r)
  case Nil
  then show ?case by simp
next
  case (Cons device rest)
  show ?case
  proof (cases "configs device")
    case (Inl s)
    obtain out' r' where rec:
      "print_entries (Suc i) rest (if inc \<noteq> None then Some True else inc) = (out', r')"
      by (cases "print_entries (Suc i) rest (if inc \<noteq> None then Some True else inc)") auto
    from Cons.IH [OF rec] Cons.prems Inl rec show ?thesis
      by (auto simp: Let_def split: option.splits)
  next
    case (Inr cfgs)
    obtain out' r' where rec: "print_entries (Suc i) rest inc = (out', r')"
      by (cases "print_entries (Suc i) rest inc") auto
    from Cons.IH [OF rec] Cons.prems Inr rec show ?thesis
      by (auto simp: Let_def split: option.splits)
  qed
qed

text \<open>
  C8. The closing notice is printed exactly when a device list was passed explicitly and
  the \<open>'configs'\<close> field of at least one of its entries is a string (the placeholder of
  an already-open device); with the cached list (no argument) it is never printed; and
  when it is printed it is the last line.
\<close>

theorem print_device_list_notice:
  "(IncompleteNotice \<in> set (print_device_list devices devices_list)) =
     (\<exists>l. devices_list = Some l \<and> (\<exists>d \<in> set l. isl (configs d))) \<and>
   IncompleteNotice \<notin> set (print_device_list devices None) \<and>
   (IncompleteNotice \<in> set (print_device_list devices devices_list) \<longrightarrow>
      last (print_device_list devices devices_list) = IncompleteNotice)"
proof -
  have cached: "IncompleteNotice \<notin> set (print_device_list devices None)"
  proof -
    obtain out r where p: "print_entries 0 devices None = (out, r)"
      by (cases "print_entries 0 devices None") auto
    from print_entries_result [OF p] p show ?thesis
      by (simp add: print_device_list_def)
  qed
  have given: "(IncompleteNotice \<in> set (print_device_list devices (Some l))) =
                 (\<exists>d \<in> set l. isl (configs d))" for l
  proof -
    obtain out r where p: "print_entries 0 l (Some False) = (out, r)"
      by (cases "print_entries 0 l (Some False)") auto
    from print_entries_result [OF p] p show ?thesis
      by (simp add: print_device_list_def)
  qed
  have trailing: "IncompleteNotice \<in> set (print_device_list devices devices_list) \<Longrightarrow>
                  last (print_device_list devices devices_list) = IncompleteNotice"
    by (auto simp: print_device_list_def split: option.splits prod.splits if_splits
             dest: print_entries_result)
  from cached given trailing show ?thesis
    by (cases devices_list) auto
qed

theorem print_device_list_notice_witness:
  "isl (configs open_entry) \<and>
   last (print_device_list [] (Some [open_entry])) = IncompleteNotice \<and>
   IncompleteNotice \<notin> set (print_device_list [open_entry] None)"
  using print_device_list_notice [of "[]" "Some [open_entry]"]
        print_device_list_notice [of "[open_entry]" None]
  by (simp add: open_entry_def)

section \<open>Properties of the monitor window\<close>

text \<open>
  C10. \<open>closeEvent\<close> accepts the close event whatever the dialog returns: the reply is
  never looked at, so answering No closes the window as answering Yes does.
\<close>

theorem closeEvent_always_accepts:
  "accepted (closeEvent question event) \<and>
   closeEvent (\<lambda>title text buttons dflt. No) event = closeEvent (\<lambda>title text buttons dflt. Yes) event"
  by (simp add: closeEvent_def)

lemma terminate_last: "(replicate n a @ [b])[n := c] = replicate n a @ [c]"
  by (simp add: list_update_append)

lemma terminate_again: "(replicate n a)[k := a] = replicate n a"
proof (cases "k < n")
  case True
  then have "replicate n a ! k = a" by simp
  then show ?thesis by (metis list_update_id)
next
  case False
  then show ?thesis by (simp add: list_update_beyond)
qed

lemma workers_ok_init: "workers_ok (MonitorWindow_init text props)"
  by (simp add: workers_ok_def MonitorWindow_init_def)

lemma workers_ok_start: "workers_ok s \<Longrightarrow> workers_ok (snd (start_monitor Q m_as s))"
  unfolding workers_ok_def start_monitor_def
  by (auto simp: Let_def split: sum.splits option.splits)

lemma workers_ok_stop:
  assumes "workers_ok s"
  shows "workers_ok (snd (stop_monitor s))"
proof -
  from assms obtain n where n:
    "(threads s = replicate n Terminated \<and>
        (worker_thread s = None \<and> n = 0 \<or> worker_thread s = Some (n - 1) \<and> 0 < n)) \<or>
     (threads s = replicate n Terminated @ [Started] \<and> worker_thread s = Some n \<and>
        running_monitor s)"
    unfolding workers_ok_def by blast
  then show ?thesis
  proof
    assume "threads s = replicate n Terminated \<and>
        (worker_thread s = None \<and> n = 0 \<or> worker_thread s = Some (n - 1) \<and> 0 < n)"
    then show ?thesis
      unfolding workers_ok_def stop_monitor_def
      by (intro exI [of _ n]) (auto simp: Let_def terminate_again)
  next
    assume "threads s = replicate n Terminated @ [Started] \<and> worker_thread s = Some n \<and>
        running_monitor s"
    then show ?thesis
      unfolding workers_ok_def stop_monitor_def
      by (intro exI [of _ "Suc n"]) (simp add: Let_def terminate_last replicate_append_same)
  qed
qed

lemma workers_ok_props: "workers_ok s \<Longrightarrow> workers_ok (snd (update_properties p s))"
  unfolding workers_ok_def update_properties_def
  by (auto simp: Let_def split: option.splits)

lemma reachable_workers_ok: "reachable s \<Longrightarrow> workers_ok s"
  by (induction rule: reachable.induct)
     (simp_all add: workers_ok_init workers_ok_start workers_ok_stop workers_ok_props)

text \<open>
  C9. In every reachable state of the window at most one worker thread is started and not
  terminated, and at most one timer is active; \<open>start_monitor\<close> on a running monitor and
  \<open>stop_monitor\<close> on a stopped one only print their message and leave the state as it is.
\<close>

theorem monitor_single_worker:
  assumes "reachable s"
  shows "active_workers s \<le> 1 \<and> active_timers s \<le> 1 \<and>
         (running_monitor s \<longrightarrow>
            start_monitor Q m_as s = (Returned [''Monitor already running''], s)) \<and>
         (\<not> running_monitor s \<longrightarrow> stop_monitor s = (Returned [''Monitor not running''], s))"
proof -
  from assms have "workers_ok s" by (rule reachable_workers_ok)
  then have "active_workers s \<le> 1"
    by (auto simp: workers_ok_def active_workers_def)
  then show ?thesis
    by (simp add: active_timers_def start_monitor_def stop_monitor_def)
qed

theorem monitor_single_worker_witness:
  "reachable started_window \<and> running_monitor started_window \<and>
   threads started_window = [Started] \<and> timer_active started_window \<and>
   active_workers started_window \<le> 1 \<and>
   start_monitor parse_ok magnitude_ok started_window =
     (Returned [''Monitor already running''], started_window)"
proof -
  have r: "reachable started_window"
    unfolding started_window_def by (rule reachable.start) (rule reachable.init)
  have f: "running_monitor started_window" "threads started_window = [Started]"
    "timer_active started_window"
    by (simp_all add: started_window_def start_monitor_def MonitorWindow_init_def
          parse_ok_def magnitude_ok_def Let_def)
  from monitor_single_worker [OF r, of parse_ok magnitude_ok] r f show ?thesis by simp
qed

end
